theory Spec2Isabelle
  imports Complex_Main "HOL-Library.Sublist" "HOL-Library.AList"
begin

section \<open>prgpt: a shallow embedding of \<^verbatim>\<open>main.go\<close>\<close>

text \<open>
  The program is one Go file: \<^verbatim>\<open>main\<close> reads the \<^verbatim>\<open>-pr\<close> flag, calls
  \<^verbatim>\<open>loadConfig\<close>, \<^verbatim>\<open>getPRDiff\<close> and \<^verbatim>\<open>generateFinalConsideration\<close> in this order
  and prints one line. A Go \<^verbatim>\<open>string\<close> is a sequence of bytes, here a \<^typ>\<open>string\<close>
  (a list of 8-bit \<^typ>\<open>char\<close>). A function that returns \<^verbatim>\<open>(T, error)\<close> returns a
  sum here, \<^term>\<open>Inl\<close> holding the error. Everything the program does to the outside
  (opening the configuration file, running \<^verbatim>\<open>gh\<close>, the HTTP round trip, writing to
  standard output) is recorded, in order, in a list of events that every function returns
  beside its result.
\<close>

subsection \<open>Constants (lines 18-23)\<close>

definition openAICompletionURL :: string where
  "openAICompletionURL = ''https://api.openai.com/v1/chat/completions''"

definition openAIModel :: string where
  "openAIModel = ''gpt-3.5-turbo-1106''"

definition CONFIG_FOLDER :: string where
  "CONFIG_FOLDER = ''/.config/openai/''"

definition FILENAME :: string where
  "FILENAME = ''config.toml''"

subsection \<open>Structs (lines 25-63)\<close>

text \<open>
  \<^verbatim>\<open>float64\<close>: the finite values are kept as rationals (the only value the program
  ever builds is the literal \<^verbatim>\<open>0.5\<close>, which is exact in binary); the three values
  that \<^verbatim>\<open>json.Marshal\<close> refuses are kept apart.
\<close>

datatype float64 = Finite rat | NaN | PosInf | NegInf

record OpenAIRequestMessages =
  Role :: string
  Content :: string

record OpenAIRequest =
  Model :: string
  Messages :: "OpenAIRequestMessages list"
  Temperature :: float64

record OpenAIReponse_Usage =
  PromptTokens :: int
  CompletionTokens :: int
  TotalTokens :: int

record OpenAIReponse_Message =
  Message_Role :: string
  Message_Content :: string

record OpenAIReponse_Choice =
  Message :: OpenAIReponse_Message
  FinishReason :: string
  Index :: int

record OpenAIReponse =
  ID :: string
  Object :: string
  Created :: int
  Response_Model :: string
  Usage :: OpenAIReponse_Usage
  Choices :: "OpenAIReponse_Choice list"

record FileConfig_ApiKey =
  Key :: string

record FileConfig_Prompt =
  Custom :: string

record FileConfig =
  ApiKey :: FileConfig_ApiKey
  Prompt :: FileConfig_Prompt

text \<open>The zero value of \<^verbatim>\<open>FileConfig\<close>: what the named result of \<^verbatim>\<open>loadConfig\<close> holds
  on entry.\<close>

definition FileConfig_zero :: FileConfig where
  "FileConfig_zero = \<lparr>ApiKey = \<lparr>Key = ''''\<rparr>, Prompt = \<lparr>Custom = ''''\<rparr>\<rparr>"

subsection \<open>Errors\<close>

text \<open>
  One constructor for each place where the program builds an error with
  \<^verbatim>\<open>fmt.Errorf\<close>; the argument is the text of the underlying error that \<^verbatim>\<open>%v\<close>
  formats into the message. \<^verbatim>\<open>Error\<close> is the message, as \<^verbatim>\<open>err.Error()\<close> gives it.
\<close>

datatype error =
    ConfigError_CurrentUser
  | ConfigError_Open string
  | ConfigError_Parse string
  | InvalidURLError
  | DiffFetchError string
  | SerializationError string
  | RequestError_New string
  | RequestError_Do string
  | ResponseReadError string
  | DeserializationError string
  | EmptyResponseError

fun Error :: "error \<Rightarrow> string" where
  "Error ConfigError_CurrentUser = ''Error getting current user''"
| "Error (ConfigError_Open e) = ''Error opening TOML file: '' @ e"
| "Error (ConfigError_Parse e) = ''Error parsing TOML file: '' @ e"
| "Error InvalidURLError = ''invalid PR URL''"
| "Error (DiffFetchError e) = ''error running gh pr diff: '' @ e"
| "Error (SerializationError e) = ''error marshaling OpenAI request: '' @ e"
| "Error (RequestError_New e) = ''error creating request to OpenAI API: '' @ e"
| "Error (RequestError_Do e) = ''error making request to OpenAI API: '' @ e"
| "Error (ResponseReadError e) = ''error reading response from OpenAI API: '' @ e"
| "Error (DeserializationError e) = ''error unmarshaling OpenAI response: '' @ e"
| "Error EmptyResponseError = ''no response received from OpenAI API''"

subsection \<open>Library functions the program calls\<close>

text \<open>
  \<^verbatim>\<open>strings.Split(s, sep)\<close> for a separator of one byte: the text before the first
  separator, then the split of the text after it; a string without separator is the
  only segment. So \<^verbatim>\<open>strings.Split("", "/")\<close> is one empty segment.
\<close>

function strings_Split :: "string \<Rightarrow> char \<Rightarrow> string list" where
  "strings_Split s sep =
     (case dropWhile (\<lambda>b. b \<noteq> sep) s of
        [] \<Rightarrow> [s]
      | _ # rest \<Rightarrow> takeWhile (\<lambda>b. b \<noteq> sep) s # strings_Split rest sep)"
  by pat_completeness auto
termination
proof (relation "measure (\<lambda>(s, sep). length s)")
  show "wf (measure (\<lambda>(s, sep). length s))"
    by simp
next
  fix s :: string and sep :: char and x21 :: char and x22 :: string
  assume d: "dropWhile (\<lambda>b. b \<noteq> sep) s = x21 # x22"
  have "length (dropWhile (\<lambda>b. b \<noteq> sep) s) \<le> length s"
    by (rule length_dropWhile_le)
  with d show "((x22, sep), (s, sep)) \<in> measure (\<lambda>(s, sep). length s)"
    by simp
qed

declare strings_Split.simps [simp del]

text \<open>
  \<^verbatim>\<open>fmt.Println\<close> of operands already formatted as text (a string prints as itself,
  an error as its \<^verbatim>\<open>Error()\<close>): a space between operands, a newline at the end.
\<close>

fun fmt_Println :: "string list \<Rightarrow> string" where
  "fmt_Println [] = [CHR 0x0A]"
| "fmt_Println [a] = a @ [CHR 0x0A]"
| "fmt_Println (a # b # rest) = a @ '' '' @ fmt_Println (b # rest)"

subsection \<open>\<^verbatim>\<open>encoding/json\<close>: what \<^verbatim>\<open>json.Marshal\<close> writes for the request\<close>

text \<open>
  The body that \<^verbatim>\<open>json.Marshal\<close> returns is kept as the JSON document it denotes
  (what a reader of the body sees after parsing it), with a string value kept as its
  UTF-8 bytes. The keys are the struct tags. Two rules of the encoder are part of the
  model, as the package documents them: a string value is coerced to valid UTF-8, every
  byte that does not start a well-formed sequence being replaced by U+FFFD; and a
  \<^verbatim>\<open>float64\<close> that is NaN or infinite is refused with an error.
\<close>

datatype json =
    JNull
  | JBool bool
  | JNumber rat
  | JString string
  | JArray "json list"
  | JObject "(string \<times> json) list"

definition byte_in :: "nat \<Rightarrow> nat \<Rightarrow> char \<Rightarrow> bool" where
  "byte_in lo hi b = (lo \<le> of_char b \<and> (of_char b :: nat) \<le> hi)"

text \<open>
  \<^verbatim>\<open>utf8.DecodeRuneInString\<close>, as far as the encoder uses it: the width of the
  well-formed sequence the string starts with, and \<^term>\<open>None\<close> where Go returns
  \<^verbatim>\<open>(RuneError, 1)\<close>. The second byte's range depends on the first (no overlong
  forms, no surrogates, nothing above U+10FFFF).
\<close>

fun utf8_rune_size :: "string \<Rightarrow> nat option" where
  "utf8_rune_size [] = None"
| "utf8_rune_size (b0 # bs) =
     (let x = (of_char b0 :: nat) in
      if x < 0x80 then Some 1
      else if x < 0xC2 then None
      else if x < 0xE0 then
        (case bs of
           b1 # _ \<Rightarrow> if byte_in 0x80 0xBF b1 then Some 2 else None
         | _ \<Rightarrow> None)
      else if x < 0xF0 then
        (case bs of
           b1 # b2 # _ \<Rightarrow>
             if byte_in (if x = 0xE0 then 0xA0 else 0x80) (if x = 0xED then 0x9F else 0xBF) b1
                \<and> byte_in 0x80 0xBF b2
             then Some 3 else None
         | _ \<Rightarrow> None)
      else if x < 0xF5 then
        (case bs of
           b1 # b2 # b3 # _ \<Rightarrow>
             if byte_in (if x = 0xF0 then 0x90 else 0x80) (if x = 0xF4 then 0x8F else 0xBF) b1
                \<and> byte_in 0x80 0xBF b2 \<and> byte_in 0x80 0xBF b3
             then Some 4 else None
         | _ \<Rightarrow> None)
      else None)"

text \<open>U+FFFD in UTF-8.\<close>

definition RuneError_utf8 :: string where
  "RuneError_utf8 = [CHR 0xEF, CHR 0xBF, CHR 0xBD]"

text \<open>
  The encoder's walk over a string value: a well-formed sequence is kept, a byte that
  starts none becomes U+FFFD and the walk goes on at the next byte.
\<close>

function utf8_coerce :: "string \<Rightarrow> string" where
  "utf8_coerce [] = []"
| "utf8_coerce (b # bs) =
     (case utf8_rune_size (b # bs) of
        None \<Rightarrow> RuneError_utf8 @ utf8_coerce bs
      | Some n \<Rightarrow> take n (b # bs) @ utf8_coerce (drop n (b # bs)))"
  by pat_completeness auto
termination
  by (relation "measure length")
     (auto simp: Let_def split: if_splits list.splits)

text \<open>\<^verbatim>\<open>utf8.ValidString\<close>: every byte belongs to a well-formed sequence.\<close>

function utf8_ValidString :: "string \<Rightarrow> bool" where
  "utf8_ValidString [] = True"
| "utf8_ValidString (b # bs) =
     (case utf8_rune_size (b # bs) of
        None \<Rightarrow> False
      | Some n \<Rightarrow> utf8_ValidString (drop n (b # bs)))"
  by pat_completeness auto
termination
  by (relation "measure length")
     (auto simp: Let_def split: if_splits list.splits)

definition Marshal_string :: "string \<Rightarrow> json" where
  "Marshal_string s = JString (utf8_coerce s)"

definition Marshal_OpenAIRequestMessages :: "OpenAIRequestMessages \<Rightarrow> json" where
  "Marshal_OpenAIRequestMessages m =
     JObject [(''role'', Marshal_string (Role m)), (''content'', Marshal_string (Content m))]"

definition json_Marshal :: "OpenAIRequest \<Rightarrow> string + json" where
  "json_Marshal r =
     (case Temperature r of
        Finite q \<Rightarrow>
          Inr (JObject
            [(''model'', Marshal_string (Model r)),
             (''messages'', JArray (map Marshal_OpenAIRequestMessages (Messages r))),
             (''temperature'', JNumber q)])
      | NaN \<Rightarrow> Inl ''json: unsupported value: NaN''
      | PosInf \<Rightarrow> Inl ''json: unsupported value: +Inf''
      | NegInf \<Rightarrow> Inl ''json: unsupported value: -Inf'')"

subsection \<open>The outside world\<close>

record User =
  HomeDir :: string

record Request =
  Method :: string
  URL :: string
  Header :: "(string \<times> string) list"
  Body :: json

text \<open>\<^verbatim>\<open>resp.Body\<close> is kept as what \<^verbatim>\<open>io.ReadAll\<close> returns for it.\<close>

record Response =
  StatusCode :: int
  Body_ReadAll :: "string + string"

text \<open>
  What the program cannot decide by itself is a parameter: the operating system
  (\<^verbatim>\<open>user.Current\<close>, \<^verbatim>\<open>os.Open\<close> and the file's content), the TOML decoder of
  \<^verbatim>\<open>go-toml\<close>, the \<^verbatim>\<open>gh\<close> process (\<^verbatim>\<open>cmd.Output\<close> for the arguments), the checks
  of \<^verbatim>\<open>http.NewRequest\<close> on method and URL, the HTTP round trip and \<^verbatim>\<open>json.Unmarshal\<close>
  on the response body. An error is given by its text. The decoder is handed the struct
  that \<^verbatim>\<open>&result\<close> points to and returns it as it left it, with or without an error.
\<close>

record env =
  user_Current :: "string + User"
  os_Open :: "string \<Rightarrow> string + string"
  toml_Decode :: "string \<Rightarrow> FileConfig \<Rightarrow> FileConfig \<times> string option"
  cmd_Output :: "string list \<Rightarrow> string + string"
  http_NewRequest_check :: "string \<Rightarrow> string \<Rightarrow> string option"
  client_Do :: "Request \<Rightarrow> string + Response"
  json_Unmarshal :: "string \<Rightarrow> string + OpenAIReponse"

datatype event =
    FileOpen string
  | Exec "string list"
  | HttpDo Request
  | Stdout string

definition http_NewRequest :: "env \<Rightarrow> string \<Rightarrow> string \<Rightarrow> json \<Rightarrow> string + Request" where
  "http_NewRequest w method url body =
     (case http_NewRequest_check w method url of
        Some err \<Rightarrow> Inl err
      | None \<Rightarrow> Inr \<lparr>Method = method, URL = url, Header = [], Body = body\<rparr>)"

definition Header_Set :: "Request \<Rightarrow> string \<Rightarrow> string \<Rightarrow> Request" where
  "Header_Set req k v = req\<lparr>Header := AList.update k v (Header req)\<rparr>"

subsection \<open>\<^verbatim>\<open>loadConfig\<close> (lines 160-178)\<close>

definition loadConfig :: "env \<Rightarrow> event list \<times> FileConfig \<times> error option" where
  "loadConfig w =
     (let result = FileConfig_zero in
      case user_Current w of
        Inl err \<Rightarrow> ([], result, Some ConfigError_CurrentUser)
      | Inr currentUser \<Rightarrow>
          (let path = HomeDir currentUser @ CONFIG_FOLDER @ FILENAME in
           case os_Open w path of
             Inl err \<Rightarrow> ([FileOpen path], result, Some (ConfigError_Open err))
           | Inr file \<Rightarrow>
               (case toml_Decode w file result of
                  (result', Some err) \<Rightarrow> ([FileOpen path], result', Some (ConfigError_Parse err))
                | (result', None) \<Rightarrow> ([FileOpen path], result', None))))"

subsection \<open>\<^verbatim>\<open>getPRDiff\<close> (lines 92-109)\<close>

definition getPRDiff :: "env \<Rightarrow> string \<Rightarrow> event list \<times> (error + string)" where
  "getPRDiff w prURL =
     (let parts = strings_Split prURL (CHR ''/'') in
      if length parts < 7 then ([], Inl InvalidURLError)
      else
        (let org = parts ! 3;
             repo = parts ! 4;
             prNumber = parts ! 6;
             cmd = [''gh'', ''pr'', ''diff'', ''-R'', org @ ''/'' @ repo, prNumber]
         in case cmd_Output w cmd of
              Inl err \<Rightarrow> ([Exec cmd], Inl (DiffFetchError err))
            | Inr output \<Rightarrow> ([Exec cmd], Inr output)))"

subsection \<open>\<^verbatim>\<open>generateFinalConsideration\<close> (lines 111-158)\<close>

definition instruction :: string where
  "instruction = [CHR 0x0A] @ ''Please provide a final consideration for this PR in Markdown format, focusing only on potential issues and ensuring the application's stability. Include an 'Approved: true/false' statement at the end for easy decision-making.Thank you!''"

definition generateFinalConsideration ::
    "env \<Rightarrow> string \<Rightarrow> string \<Rightarrow> event list \<times> (error + string)" where
  "generateFinalConsideration w prDiff apiKey =
     (let prompt = prDiff @ instruction;
          message = \<lparr>Role = ''user'', Content = prompt\<rparr>
      in case json_Marshal \<lparr>Model = openAIModel, Messages = [message], Temperature = Finite 0.5\<rparr> of
           Inl err \<Rightarrow> ([], Inl (SerializationError err))
         | Inr reqBody \<Rightarrow>
             (case http_NewRequest w ''POST'' openAICompletionURL reqBody of
                Inl err \<Rightarrow> ([], Inl (RequestError_New err))
              | Inr req0 \<Rightarrow>
                  (let req1 = Header_Set req0 ''Content-Type'' ''application/json'';
                       req = Header_Set req1 ''Authorization'' (''Bearer '' @ apiKey)
                   in case client_Do w req of
                        Inl err \<Rightarrow> ([HttpDo req], Inl (RequestError_Do err))
                      | Inr resp \<Rightarrow>
                          (case Body_ReadAll resp of
                             Inl err \<Rightarrow> ([HttpDo req], Inl (ResponseReadError err))
                           | Inr body \<Rightarrow>
                               (case json_Unmarshal w body of
                                  Inl err \<Rightarrow> ([HttpDo req], Inl (DeserializationError err))
                                | Inr openAIResp \<Rightarrow>
                                    if length (Choices openAIResp) = 0
                                    then ([HttpDo req], Inl EmptyResponseError)
                                    else ([HttpDo req],
                                          Inr (Message_Content (Message (Choices openAIResp ! 0)))))))))"

subsection \<open>\<^verbatim>\<open>main\<close> (lines 65-90)\<close>

text \<open>
  The command line is given as \<^verbatim>\<open>flag.Parse\<close> leaves it for a command line that has
  the \<^verbatim>\<open>-pr\<close> flag at most once and no other flag: \<^term>\<open>None\<close> when the flag is absent
  (\<^verbatim>\<open>prURL\<close> keeps its default, the empty string), its value otherwise. The second
  component of the result is the exit status: \<^verbatim>\<open>main\<close> calls \<^verbatim>\<open>os.Exit\<close> nowhere, so
  each of its returns ends the process with status 0.
\<close>

definition main :: "env \<Rightarrow> string option \<Rightarrow> event list \<times> int" where
  "main w pr_flag =
     (let prURL = (case pr_flag of None \<Rightarrow> '''' | Some v \<Rightarrow> v);
          (ev0, cfg, err) = loadConfig w
      in if prURL = ''''
         then (ev0 @ [Stdout (fmt_Println [''Usage: pr_review_cli -pr <PR_URL>''])], 0)
         else
           (case getPRDiff w prURL of
              (ev1, Inl err) \<Rightarrow>
                (ev0 @ ev1 @ [Stdout (fmt_Println [''Error fetching PR diff:'', Error err])], 0)
            | (ev1, Inr prDiff) \<Rightarrow>
                (case generateFinalConsideration w prDiff (Key (ApiKey cfg)) of
                   (ev2, Inl err) \<Rightarrow>
                     (ev0 @ ev1 @ ev2
                        @ [Stdout (fmt_Println [''Error generating final consideration:'', Error err])], 0)
                 | (ev2, Inr finalConsideration) \<Rightarrow>
                     (ev0 @ ev1 @ ev2 @ [Stdout (fmt_Println [finalConsideration])], 0))))"

subsection \<open>Reading a run\<close>

fun stdout_of :: "event list \<Rightarrow> string" where
  "stdout_of [] = []"
| "stdout_of (Stdout s # es) = s @ stdout_of es"
| "stdout_of (_ # es) = stdout_of es"

fun processes_of :: "event list \<Rightarrow> string list list" where
  "processes_of [] = []"
| "processes_of (Exec argv # es) = argv # processes_of es"
| "processes_of (_ # es) = processes_of es"

fun requests_of :: "event list \<Rightarrow> Request list" where
  "requests_of [] = []"
| "requests_of (HttpDo r # es) = r # requests_of es"
| "requests_of (_ # es) = requests_of es"

subsection \<open>Example environments\<close>

text \<open>
  Concrete environments on which the theorems below are instantiated. In
  \<open>example_env\<close> every step succeeds and the service answers with one choice.
\<close>

definition example_response :: OpenAIReponse where
  "example_response =
     \<lparr>ID = ''chatcmpl-1'', Object = ''chat.completion'', Created = 1700000000,
      Response_Model = ''gpt-3.5-turbo-1106'',
      Usage = \<lparr>PromptTokens = 10, CompletionTokens = 5, TotalTokens = 15\<rparr>,
      Choices = [\<lparr>Message = \<lparr>Message_Role = ''assistant'',
                              Message_Content = ''LGTM'' @ [CHR 0x0A] @ ''Approved: true''\<rparr>,
                  FinishReason = ''stop'', Index = 0\<rparr>]\<rparr>"

definition example_env :: env where
  "example_env =
     \<lparr>user_Current = Inr \<lparr>HomeDir = ''/home/dev''\<rparr>,
      os_Open = (\<lambda>path. Inr ''[apikey]''),
      toml_Decode = (\<lambda>file result. (result\<lparr>ApiKey := \<lparr>Key = ''sk-test''\<rparr>\<rparr>, None)),
      cmd_Output = (\<lambda>argv. Inr ''diff --git a/x b/x''),
      http_NewRequest_check = (\<lambda>method url. None),
      client_Do = (\<lambda>req. Inr \<lparr>StatusCode = 200, Body_ReadAll = Inr ''{}''\<rparr>),
      json_Unmarshal = (\<lambda>body. Inr example_response)\<rparr>"

text \<open>\<^verbatim>\<open>gh\<close> exits with status 1.\<close>

definition env_gh_fails :: env where
  "env_gh_fails = example_env\<lparr>cmd_Output := (\<lambda>argv. Inl ''exit status 1'')\<rparr>"

text \<open>The service answers with a document that has no choices (an error payload).\<close>

definition env_no_choices :: env where
  "env_no_choices =
     example_env\<lparr>client_Do := (\<lambda>req. Inr \<lparr>StatusCode = 401, Body_ReadAll = Inr ''{}''\<rparr>),
                 json_Unmarshal := (\<lambda>body. Inr (example_response\<lparr>Choices := []\<rparr>))\<rparr>"

text \<open>There is no configuration file.\<close>

definition env_no_config :: env where
  "env_no_config = example_env\<lparr>os_Open := (\<lambda>path. Inl ''no such file or directory'')\<rparr>"

text \<open>
  The configuration file has a well-formed \<^verbatim>\<open>[apikey]\<close> table followed by a line
  that is not TOML: the decoder has stored the key when it reaches the error.
\<close>

definition env_partial_config :: env where
  "env_partial_config =
     example_env\<lparr>toml_Decode :=
       (\<lambda>file result. (result\<lparr>ApiKey := \<lparr>Key = ''sk-partial''\<rparr>\<rparr>, Some ''toml: expected character =''))\<rparr>"

section \<open>Lemmas\<close>

subsection \<open>\<^verbatim>\<open>strings.Split\<close>\<close>

lemma strings_Split_no_sep: "sep \<notin> set s \<Longrightarrow> strings_Split s sep = [s]"
proof -
  assume "sep \<notin> set s"
  then have "dropWhile (\<lambda>b. b \<noteq> sep) s = []"
    by auto
  then show ?thesis
    by (subst strings_Split.simps) (simp only: list.case)
qed

lemma strings_Split_sep:
  assumes "sep \<notin> set a"
  shows "strings_Split (a @ sep # rest) sep = a # strings_Split rest sep"
proof -
  have d: "dropWhile (\<lambda>b. b \<noteq> sep) (a @ sep # rest) = sep # rest"
    using assms by (subst dropWhile_append2) auto
  have t: "takeWhile (\<lambda>b. b \<noteq> sep) (a @ sep # rest) = a"
    using assms by (subst takeWhile_append2) auto
  show ?thesis
    by (subst strings_Split.simps) (simp only: d t list.case)
qed

text \<open>The number of segments is the number of separators plus one.\<close>

lemma length_strings_Split: "length (strings_Split s sep) = Suc (count_list s sep)"
proof (induction s sep rule: strings_Split.induct)
  case (1 s sep)
  show ?case
  proof (cases "dropWhile (\<lambda>b. b \<noteq> sep) s")
    case Nil
    then have n: "sep \<notin> set s"
      by auto
    then have "count_list s sep = 0"
      by simp
    with n show ?thesis
      by (simp add: strings_Split_no_sep)
  next
    case (Cons x rest)
    have x: "x = sep"
      using Cons hd_dropWhile [of "\<lambda>b. b \<noteq> sep" s] by auto
    define a where "a = takeWhile (\<lambda>b. b \<noteq> sep) s"
    have s: "s = a @ sep # rest"
      using Cons x takeWhile_dropWhile_id [of "\<lambda>b. b \<noteq> sep" s] by (simp add: a_def)
    have na: "sep \<notin> set a"
      using set_takeWhileD [of sep "\<lambda>b. b \<noteq> sep" s] by (auto simp: a_def)
    have "count_list s sep = Suc (count_list rest sep)"
      using na by (simp add: s)
    moreover have "length (strings_Split s sep) = Suc (length (strings_Split rest sep))"
      using na by (simp add: s strings_Split_sep)
    ultimately show ?thesis
      using "1.IH" [OF Cons] by simp
  qed
qed

lemma strings_Split_empty: "strings_Split [] sep = [[]]"
  by (simp add: strings_Split_no_sep)

lemma strings_Split_example:
  "strings_Split ''https://github.com/orgX/repoY/pull/123'' (CHR ''/'')
     = [''https:'', [], ''github.com'', ''orgX'', ''repoY'', ''pull'', ''123'']"
  by (simp add: strings_Split.simps)

subsection \<open>UTF-8\<close>

lemma utf8_rune_size_bounds:
  "utf8_rune_size s = Some n \<Longrightarrow> 0 < n \<and> n \<le> length s"
  by (cases s) (auto simp: Let_def split: if_splits list.splits)

lemma utf8_rune_size_append:
  "utf8_rune_size s = Some n \<Longrightarrow> utf8_rune_size (s @ t) = Some n"
  by (cases s) (auto simp: Let_def split: if_splits list.splits)

lemma drop_append_le: "n \<le> length xs \<Longrightarrow> drop n (xs @ t) = drop n xs @ t"
  by simp

lemma utf8_ValidString_append:
  "utf8_ValidString s \<Longrightarrow> utf8_ValidString t \<Longrightarrow> utf8_ValidString (s @ t)"
proof (induction s rule: utf8_ValidString.induct)
  case 1
  then show ?case by simp
next
  case (2 b bs)
  from "2.prems"(1) obtain n where n: "utf8_rune_size (b # bs) = Some n"
    by (auto split: option.splits)
  have le: "n \<le> length (b # bs)"
    using utf8_rune_size_bounds [OF n] by simp
  have v: "utf8_ValidString (drop n (b # bs))"
    using "2.prems"(1) n by simp
  have "utf8_ValidString (drop n (b # bs) @ t)"
    using "2.IH" [OF n v "2.prems"(2)] .
  moreover have "drop n ((b # bs) @ t) = drop n (b # bs) @ t"
    using le by (rule drop_append_le)
  moreover have "utf8_rune_size ((b # bs) @ t) = Some n"
    using n by (rule utf8_rune_size_append)
  ultimately show ?case
    by (simp only: utf8_ValidString.simps append_Cons option.case)
qed

text \<open>The encoder leaves a valid string as it is.\<close>

lemma utf8_coerce_valid: "utf8_ValidString s \<Longrightarrow> utf8_coerce s = s"
proof (induction s rule: utf8_coerce.induct)
  case 1
  then show ?case by simp
next
  case (2 b bs)
  from "2.prems" obtain n where n: "utf8_rune_size (b # bs) = Some n"
    by (auto split: option.splits)
  have v: "utf8_ValidString (drop n (b # bs))"
    using "2.prems" n by simp
  have "utf8_coerce (b # bs) = take n (b # bs) @ utf8_coerce (drop n (b # bs))"
    using n by (simp del: utf8_rune_size.simps)
  also have "\<dots> = take n (b # bs) @ drop n (b # bs)"
    using "2.IH"(2) [OF n v] by simp
  finally show ?case
    by simp
qed

lemma utf8_ValidString_ascii:
  "list_all (\<lambda>b. (of_char b :: nat) < 0x80) s \<Longrightarrow> utf8_ValidString s"
  by (induction s) (simp_all add: Let_def)

lemma instruction_ascii: "list_all (\<lambda>b. (of_char b :: nat) < 0x80) instruction"
  by (simp add: instruction_def)

lemma instruction_valid: "utf8_ValidString instruction"
  using instruction_ascii by (rule utf8_ValidString_ascii)

lemma openAIModel_coerce: "utf8_coerce openAIModel = openAIModel"
  by (rule utf8_coerce_valid, rule utf8_ValidString_ascii) (simp add: openAIModel_def)

lemma user_coerce: "utf8_coerce ''user'' = ''user''"
  by (rule utf8_coerce_valid, rule utf8_ValidString_ascii) simp

subsection \<open>Events of each stage\<close>

lemma stdout_of_append: "stdout_of (xs @ ys) = stdout_of xs @ stdout_of ys"
  by (induction xs rule: stdout_of.induct) simp_all

lemma processes_of_append: "processes_of (xs @ ys) = processes_of xs @ processes_of ys"
  by (induction xs rule: processes_of.induct) simp_all

lemma requests_of_append: "requests_of (xs @ ys) = requests_of xs @ requests_of ys"
  by (induction xs rule: requests_of.induct) simp_all

lemma loadConfig_events:
  "processes_of (fst (loadConfig w)) = []"
  "requests_of (fst (loadConfig w)) = []"
  "stdout_of (fst (loadConfig w)) = []"
  by (simp_all add: loadConfig_def Let_def split: sum.split prod.split option.split)

lemma getPRDiff_events:
  "requests_of (fst (getPRDiff w u)) = []"
  "stdout_of (fst (getPRDiff w u)) = []"
  by (simp_all add: getPRDiff_def Let_def split: sum.split)

lemma generate_events:
  "processes_of (fst (generateFinalConsideration w d k)) = []"
  "stdout_of (fst (generateFinalConsideration w d k)) = []"
  by (simp_all add: generateFinalConsideration_def Let_def split: sum.split)

subsection \<open>The stages, case by case\<close>

lemma getPRDiff_short:
  "length (strings_Split prURL (CHR ''/'')) < 7 \<Longrightarrow>
   getPRDiff w prURL = ([], Inl InvalidURLError)"
  by (simp add: getPRDiff_def Let_def)

lemma getPRDiff_long:
  "7 \<le> length (strings_Split prURL (CHR ''/'')) \<Longrightarrow>
   getPRDiff w prURL =
     ([Exec [''gh'', ''pr'', ''diff'', ''-R'',
             strings_Split prURL (CHR ''/'') ! 3 @ ''/'' @ strings_Split prURL (CHR ''/'') ! 4,
             strings_Split prURL (CHR ''/'') ! 6]],
      case cmd_Output w [''gh'', ''pr'', ''diff'', ''-R'',
             strings_Split prURL (CHR ''/'') ! 3 @ ''/'' @ strings_Split prURL (CHR ''/'') ! 4,
             strings_Split prURL (CHR ''/'') ! 6] of
        Inl err \<Rightarrow> Inl (DiffFetchError err)
      | Inr out \<Rightarrow> Inr out)"
  by (simp add: getPRDiff_def Let_def split: sum.split)

lemma main_usage:
  "main w None =
     (fst (loadConfig w) @ [Stdout (fmt_Println [''Usage: pr_review_cli -pr <PR_URL>''])], 0)"
  "main w (Some []) =
     (fst (loadConfig w) @ [Stdout (fmt_Println [''Usage: pr_review_cli -pr <PR_URL>''])], 0)"
  by (simp_all add: main_def split: prod.split)

lemma main_run:
  assumes "prURL \<noteq> []"
  shows "main w (Some prURL) =
    (fst (loadConfig w) @ fst (getPRDiff w prURL) @
      (case snd (getPRDiff w prURL) of
         Inl err \<Rightarrow> [Stdout (fmt_Println [''Error fetching PR diff:'', Error err])]
       | Inr prDiff \<Rightarrow>
           fst (generateFinalConsideration w prDiff (Key (ApiKey (fst (snd (loadConfig w)))))) @
           (case snd (generateFinalConsideration w prDiff
                        (Key (ApiKey (fst (snd (loadConfig w)))))) of
              Inl err \<Rightarrow>
                [Stdout (fmt_Println [''Error generating final consideration:'', Error err])]
            | Inr finalConsideration \<Rightarrow> [Stdout (fmt_Println [finalConsideration])])), 0)"
proof -
  obtain ev0 cfg err where lc: "loadConfig w = (ev0, cfg, err)"
    by (cases "loadConfig w") auto
  obtain ev1 r1 where g: "getPRDiff w prURL = (ev1, r1)"
    by (cases "getPRDiff w prURL")
  show ?thesis
  proof (cases r1)
    case (Inl e)
    then show ?thesis
      using assms lc g by (simp add: main_def)
  next
    case (Inr d)
    obtain ev2 r2 where f: "generateFinalConsideration w d (Key (ApiKey cfg)) = (ev2, r2)"
      by (cases "generateFinalConsideration w d (Key (ApiKey cfg))")
    show ?thesis
      using assms lc g Inr f by (cases r2) (simp_all add: main_def)
  qed
qed

subsection \<open>The generator, the runs of the examples, and what \<open>main\<close> prints\<close>

lemma strings_Split_example2:
  "strings_Split ''https://github.com/loadfms/prgpt/pull/7'' (CHR ''/'')
     = [''https:'', [], ''github.com'', ''loadfms'', ''prgpt'', ''pull'', ''7'']"
  by (simp add: strings_Split.simps)

lemma strings_Split_short_example:
  "strings_Split ''https://github.com/orgX/repoY'' (CHR ''/'')
     = [''https:'', [], ''github.com'', ''orgX'', ''repoY'']"
  by (simp add: strings_Split.simps)

lemma long_url_nonempty:
  "7 \<le> length (strings_Split prURL (CHR ''/'')) \<Longrightarrow> prURL \<noteq> []"
  by (auto simp: strings_Split_empty)

lemma strings_Split_example3:
  "strings_Split ''ssh://example.org/orgX/repoY/issues/123/files'' (CHR ''/'')
     = [''ssh:'', [], ''example.org'', ''orgX'', ''repoY'', ''issues'', ''123'', ''files'']"
  by (simp add: strings_Split.simps)

lemma loadConfig_only_opens:
  "fst (loadConfig w) = [] \<or>
   (\<exists>home. user_Current w = Inr home \<and>
      fst (loadConfig w) = [FileOpen (HomeDir home @ ''/.config/openai/config.toml'')])"
  by (simp add: loadConfig_def Let_def CONFIG_FOLDER_def FILENAME_def
        split: sum.split prod.split option.split)

lemma generate_refused:
  assumes "http_NewRequest_check w ''POST'' openAICompletionURL = Some e"
  shows "generateFinalConsideration w d k = ([], Inl (RequestError_New e))"
  using assms
  by (simp add: generateFinalConsideration_def json_Marshal_def http_NewRequest_def)

lemma generate_sent:
  assumes "http_NewRequest_check w ''POST'' openAICompletionURL = None"
  shows "generateFinalConsideration w d k =
    (let req = \<lparr>Method = ''POST'', URL = openAICompletionURL,
                 Header = [(''Content-Type'', ''application/json''),
                           (''Authorization'', ''Bearer '' @ k)],
                 Body = JObject
                   [(''model'', JString (utf8_coerce openAIModel)),
                    (''messages'', JArray [JObject
                       [(''role'', JString (utf8_coerce ''user'')),
                        (''content'', JString (utf8_coerce (d @ instruction)))]]),
                    (''temperature'', JNumber 0.5)]\<rparr>
     in ([HttpDo req],
         case client_Do w req of
           Inl err \<Rightarrow> Inl (RequestError_Do err)
         | Inr resp \<Rightarrow>
             (case Body_ReadAll resp of
                Inl err \<Rightarrow> Inl (ResponseReadError err)
              | Inr body \<Rightarrow>
                  (case json_Unmarshal w body of
                     Inl err \<Rightarrow> Inl (DeserializationError err)
                   | Inr openAIResp \<Rightarrow>
                       if length (Choices openAIResp) = 0 then Inl EmptyResponseError
                       else Inr (Message_Content (Message (Choices openAIResp ! 0)))))))"
  using assms
  by (simp add: generateFinalConsideration_def json_Marshal_def http_NewRequest_def
        Header_Set_def Marshal_OpenAIRequestMessages_def Marshal_string_def Let_def
        split: sum.split)

lemma generate_after_request:
  assumes "fst (generateFinalConsideration w d k) = [HttpDo req]"
  shows "snd (generateFinalConsideration w d k) =
    (case client_Do w req of
       Inl err \<Rightarrow> Inl (RequestError_Do err)
     | Inr resp \<Rightarrow>
         (case Body_ReadAll resp of
            Inl err \<Rightarrow> Inl (ResponseReadError err)
          | Inr body \<Rightarrow>
              (case json_Unmarshal w body of
                 Inl err \<Rightarrow> Inl (DeserializationError err)
               | Inr openAIResp \<Rightarrow>
                   if length (Choices openAIResp) = 0 then Inl EmptyResponseError
                   else Inr (Message_Content (Message (Choices openAIResp ! 0))))))"
proof (cases "http_NewRequest_check w ''POST'' openAICompletionURL")
  case (Some e)
  then show ?thesis
    using assms by (simp add: generate_refused)
next
  case None
  show ?thesis
    using assms by (simp add: generate_sent [OF None] Let_def)
qed

lemma getPRDiff_ok_nonempty:
  assumes "getPRDiff w prURL = (ev1, Inr prDiff)"
  shows "prURL \<noteq> []"
proof
  assume "prURL = []"
  then have "getPRDiff w prURL = ([], Inl InvalidURLError)"
    by (simp add: getPRDiff_short strings_Split_empty)
  with assms show False
    by simp
qed

lemma generate_sent_valid:
  assumes "utf8_ValidString d"
    and "http_NewRequest_check w ''POST'' openAICompletionURL = None"
  shows "fst (generateFinalConsideration w d k) =
    [HttpDo \<lparr>Method = ''POST'', URL = openAICompletionURL,
              Header = [(''Content-Type'', ''application/json''),
                        (''Authorization'', ''Bearer '' @ k)],
              Body = JObject
                [(''model'', JString openAIModel),
                 (''messages'', JArray [JObject
                    [(''role'', JString ''user''),
                     (''content'', JString (d @ instruction))]]),
                 (''temperature'', JNumber 0.5)]\<rparr>]"
proof -
  have "utf8_ValidString (d @ instruction)"
    using assms(1) instruction_valid by (rule utf8_ValidString_append)
  then have "utf8_coerce (d @ instruction) = d @ instruction"
    by (rule utf8_coerce_valid)
  then show ?thesis
    by (simp add: generate_sent [OF assms(2)] Let_def openAIModel_coerce user_coerce)
qed

lemma example_diff_valid: "utf8_ValidString ''diff --git a/x b/x''"
  by (rule utf8_ValidString_ascii) simp

lemma loadConfig_example:
  "loadConfig example_env =
     ([FileOpen ''/home/dev/.config/openai/config.toml''],
      \<lparr>ApiKey = \<lparr>Key = ''sk-test''\<rparr>, Prompt = \<lparr>Custom = []\<rparr>\<rparr>, None)"
  by (simp add: loadConfig_def example_env_def FileConfig_zero_def CONFIG_FOLDER_def
        FILENAME_def)

lemma getPRDiff_example:
  "getPRDiff example_env ''https://github.com/orgX/repoY/pull/123'' =
     ([Exec [''gh'', ''pr'', ''diff'', ''-R'', ''orgX/repoY'', ''123'']],
      Inr ''diff --git a/x b/x'')"
  by (simp add: getPRDiff_long strings_Split_example example_env_def)

lemma loadConfig_no_choices: "loadConfig env_no_choices = loadConfig example_env"
  by (simp add: loadConfig_def env_no_choices_def example_env_def)

lemma getPRDiff_no_choices:
  "getPRDiff env_no_choices ''https://github.com/orgX/repoY/pull/123'' =
     ([Exec [''gh'', ''pr'', ''diff'', ''-R'', ''orgX/repoY'', ''123'']],
      Inr ''diff --git a/x b/x'')"
  by (simp add: getPRDiff_long strings_Split_example env_no_choices_def example_env_def)

lemma instruction_coerce: "utf8_coerce instruction = instruction"
  using instruction_valid by (rule utf8_coerce_valid)

lemma utf8_coerce_invalid_byte:
  "utf8_coerce (CHR 0xFF # instruction) = RuneError_utf8 @ instruction"
  by (simp add: instruction_coerce)

lemma cafe_valid: "utf8_ValidString (''+caf'' @ [CHR 0xC3, CHR 0xA9])"
  by (simp add: Let_def byte_in_def)

lemma loadConfig_failure_cases:
  assumes "loadConfig w = (ev0, cfg, Some e)"
  shows "(e = ConfigError_CurrentUser \<and> cfg = FileConfig_zero)
       \<or> (\<exists>m. e = ConfigError_Open m \<and> cfg = FileConfig_zero)
       \<or> (\<exists>m file. e = ConfigError_Parse m \<and> toml_Decode w file FileConfig_zero = (cfg, Some m))"
proof (cases "user_Current w")
  case (Inl a)
  then show ?thesis
    using assms by (simp add: loadConfig_def)
next
  case (Inr home)
  show ?thesis
  proof (cases "os_Open w (HomeDir home @ CONFIG_FOLDER @ FILENAME)")
    case (Inl m)
    then show ?thesis
      using assms Inr by (auto simp: loadConfig_def)
  next
    case opened: (Inr content)
    obtain r oe where d: "toml_Decode w content FileConfig_zero = (r, oe)"
      by (cases "toml_Decode w content FileConfig_zero")
    show ?thesis
      using assms Inr opened d by (cases oe) (auto simp: loadConfig_def)
  qed
qed

lemma loadConfig_no_config:
  "loadConfig env_no_config =
     ([FileOpen ''/home/dev/.config/openai/config.toml''], FileConfig_zero,
      Some (ConfigError_Open ''no such file or directory''))"
  by (simp add: loadConfig_def env_no_config_def example_env_def CONFIG_FOLDER_def FILENAME_def)

lemma getPRDiff_no_config:
  "getPRDiff env_no_config ''https://github.com/orgX/repoY/pull/123'' =
     ([Exec [''gh'', ''pr'', ''diff'', ''-R'', ''orgX/repoY'', ''123'']],
      Inr ''diff --git a/x b/x'')"
  by (simp add: getPRDiff_long strings_Split_example env_no_config_def example_env_def)

lemma generate_no_config:
  "generateFinalConsideration env_no_config ''diff --git a/x b/x'' [] =
     ([HttpDo \<lparr>Method = ''POST'', URL = openAICompletionURL,
                Header = [(''Content-Type'', ''application/json''),
                          (''Authorization'', ''Bearer '')],
                Body = JObject
                  [(''model'', JString openAIModel),
                   (''messages'', JArray [JObject
                      [(''role'', JString ''user''),
                       (''content'', JString (''diff --git a/x b/x'' @ instruction))]]),
                   (''temperature'', JNumber 0.5)]\<rparr>],
      Inr (''LGTM'' @ [CHR 0x0A] @ ''Approved: true''))"
proof -
  have c: "http_NewRequest_check env_no_config ''POST'' openAICompletionURL = None"
    by (simp add: env_no_config_def example_env_def)
  have f: "fst (generateFinalConsideration env_no_config ''diff --git a/x b/x'' []) =
     [HttpDo \<lparr>Method = ''POST'', URL = openAICompletionURL,
                Header = [(''Content-Type'', ''application/json''),
                          (''Authorization'', ''Bearer '')],
                Body = JObject
                  [(''model'', JString openAIModel),
                   (''messages'', JArray [JObject
                      [(''role'', JString ''user''),
                       (''content'', JString (''diff --git a/x b/x'' @ instruction))]]),
                   (''temperature'', JNumber 0.5)]\<rparr>]"
    using generate_sent_valid [OF example_diff_valid c, of "[]"] by simp
  have "snd (generateFinalConsideration env_no_config ''diff --git a/x b/x'' []) =
      Inr (''LGTM'' @ [CHR 0x0A] @ ''Approved: true'')"
    unfolding generate_after_request [OF f]
    by (simp add: env_no_config_def example_env_def example_response_def)
  with f show ?thesis
    by (simp add: prod_eq_iff)
qed

text \<open>
  What \<open>main\<close> does with an error of the diff fetcher or of the generator: it
  prints the context, the error's message and a newline, and returns.
\<close>

lemma fetch_error_reported:
  assumes "snd (getPRDiff w prURL) = Inl e" and "prURL \<noteq> []"
  shows "main w (Some prURL) =
     (fst (loadConfig w) @ fst (getPRDiff w prURL)
        @ [Stdout (''Error fetching PR diff: '' @ Error e @ [CHR 0x0A])], 0)"
  using assms(1) unfolding main_run [OF assms(2)] by simp

lemma fetch_error_reported_example:
  "snd (getPRDiff env_gh_fails ''https://github.com/orgX/repoY/pull/123'')
      = Inl (DiffFetchError ''exit status 1'')
   \<and> main env_gh_fails (Some ''https://github.com/orgX/repoY/pull/123'') =
     ([FileOpen ''/home/dev/.config/openai/config.toml'',
       Exec [''gh'', ''pr'', ''diff'', ''-R'', ''orgX/repoY'', ''123''],
       Stdout (''Error fetching PR diff: error running gh pr diff: exit status 1'' @ [CHR 0x0A])],
      0)"
proof -
  have g: "getPRDiff env_gh_fails ''https://github.com/orgX/repoY/pull/123'' =
     ([Exec [''gh'', ''pr'', ''diff'', ''-R'', ''orgX/repoY'', ''123'']],
      Inl (DiffFetchError ''exit status 1''))"
    by (simp add: getPRDiff_long strings_Split_example env_gh_fails_def)
  have l: "loadConfig env_gh_fails = loadConfig example_env"
    by (simp add: loadConfig_def env_gh_fails_def example_env_def)
  have s: "snd (getPRDiff env_gh_fails ''https://github.com/orgX/repoY/pull/123'')
      = Inl (DiffFetchError ''exit status 1'')"
    by (simp add: g)
  have ne: "''https://github.com/orgX/repoY/pull/123'' \<noteq> []"
    by simp
  show ?thesis
    using fetch_error_reported [OF s ne] by (simp add: g l loadConfig_example)
qed

lemma generate_error_reported:
  assumes "snd (getPRDiff w prURL) = Inr prDiff"
    and "snd (generateFinalConsideration w prDiff (Key (ApiKey (fst (snd (loadConfig w))))))
           = Inl e"
  shows "main w (Some prURL) =
     (fst (loadConfig w) @ fst (getPRDiff w prURL)
        @ fst (generateFinalConsideration w prDiff (Key (ApiKey (fst (snd (loadConfig w))))))
        @ [Stdout (''Error generating final consideration: '' @ Error e @ [CHR 0x0A])], 0)"
proof -
  have "getPRDiff w prURL = (fst (getPRDiff w prURL), Inr prDiff)"
    using assms(1) by (simp add: prod_eq_iff)
  then have ne: "prURL \<noteq> []"
    by (rule getPRDiff_ok_nonempty)
  show ?thesis
    using assms unfolding main_run [OF ne] by simp
qed

subsection \<open>The encoder on strings that are not valid UTF-8\<close>

lemma utf8_rune_size_append_ascii:
  assumes "(of_char a :: nat) < 0x80"
  shows "utf8_rune_size ((b # bs) @ a # t) = utf8_rune_size (b # bs)"
  using assms
  by (auto simp: Let_def byte_in_def split: if_splits list.splits)

lemma take_append_le: "n \<le> length xs \<Longrightarrow> take n (xs @ t) = take n xs"
  by simp

lemma utf8_coerce_append_ascii:
  assumes "(of_char a :: nat) < 0x80"
  shows "utf8_coerce (s @ a # t) = utf8_coerce s @ utf8_coerce (a # t)"
proof (induction s rule: utf8_coerce.induct)
  case 1
  show ?case by simp
next
  case (2 b bs)
  have r: "utf8_rune_size ((b # bs) @ a # t) = utf8_rune_size (b # bs)"
    using assms by (rule utf8_rune_size_append_ascii)
  show ?case
  proof (cases "utf8_rune_size (b # bs)")
    case None
    have "utf8_coerce ((b # bs) @ a # t) = RuneError_utf8 @ utf8_coerce (bs @ a # t)"
      using r None by (simp del: utf8_rune_size.simps)
    also have "\<dots> = RuneError_utf8 @ utf8_coerce bs @ utf8_coerce (a # t)"
      using "2.IH"(1) [OF None] by simp
    also have "\<dots> = utf8_coerce (b # bs) @ utf8_coerce (a # t)"
      using None by (simp del: utf8_rune_size.simps)
    finally show ?thesis .
  next
    case (Some n)
    have le: "n \<le> length (b # bs)"
      using utf8_rune_size_bounds [OF Some] by simp
    have d: "drop n ((b # bs) @ a # t) = drop n (b # bs) @ a # t"
      using le by (rule drop_append_le)
    have tk: "take n ((b # bs) @ a # t) = take n (b # bs)"
      using le by (rule take_append_le)
    have r': "utf8_rune_size (b # bs @ a # t) = Some n"
      using r Some by simp
    have "utf8_coerce ((b # bs) @ a # t)
            = take n ((b # bs) @ a # t) @ utf8_coerce (drop n ((b # bs) @ a # t))"
      using r' by (simp only: append_Cons utf8_coerce.simps option.case)
    also have "\<dots> = take n (b # bs) @ utf8_coerce (drop n (b # bs) @ a # t)"
      by (simp only: d tk)
    also have "\<dots> = take n (b # bs) @ utf8_coerce (drop n (b # bs)) @ utf8_coerce (a # t)"
      using "2.IH"(2) [OF Some] by simp
    also have "\<dots> = utf8_coerce (b # bs) @ utf8_coerce (a # t)"
      using Some by (simp del: utf8_rune_size.simps)
    finally show ?thesis .
  qed
qed

lemma utf8_coerce_prompt: "utf8_coerce (D @ instruction) = utf8_coerce D @ instruction"
proof -
  have i: "instruction = CHR 0x0A # tl instruction"
    by (simp add: instruction_def)
  have a: "(of_char (CHR 0x0A) :: nat) < 0x80"
    by simp
  have "utf8_coerce (D @ CHR 0x0A # tl instruction)
          = utf8_coerce D @ utf8_coerce (CHR 0x0A # tl instruction)"
    using a by (rule utf8_coerce_append_ascii)
  then have "utf8_coerce (D @ instruction) = utf8_coerce D @ utf8_coerce instruction"
    using i by simp
  then show ?thesis
    by (simp add: instruction_coerce)
qed

lemma utf8_rune_size_take:
  "utf8_rune_size s = Some n \<Longrightarrow> utf8_rune_size (take n s) = Some n"
  by (cases s) (auto simp: Let_def split: if_splits list.splits)

lemma utf8_ValidString_take:
  assumes "utf8_rune_size (b # bs) = Some n"
  shows "utf8_ValidString (take n (b # bs))"
proof -
  have pos: "0 < n" and le: "n \<le> length (b # bs)"
    using utf8_rune_size_bounds [OF assms] by simp_all
  obtain c cs where t: "take n (b # bs) = c # cs"
    using pos by (cases n) simp_all
  have "utf8_rune_size (c # cs) = Some n"
    using utf8_rune_size_take [OF assms] t by simp
  moreover have "drop n (c # cs) = []"
    using t le by (metis drop_all length_take min.absorb2 order_refl)
  ultimately show ?thesis
    unfolding t by (simp del: utf8_rune_size.simps)
qed

lemma RuneError_utf8_valid: "utf8_ValidString RuneError_utf8"
  by (simp add: RuneError_utf8_def Let_def byte_in_def)

lemma utf8_coerce_is_valid: "utf8_ValidString (utf8_coerce s)"
proof (induction s rule: utf8_coerce.induct)
  case 1
  show ?case by simp
next
  case (2 b bs)
  show ?case
  proof (cases "utf8_rune_size (b # bs)")
    case None
    then show ?thesis
      using "2.IH"(1) [OF None] RuneError_utf8_valid
      by (simp del: utf8_rune_size.simps add: utf8_ValidString_append)
  next
    case (Some n)
    then show ?thesis
      using "2.IH"(2) [OF Some] utf8_ValidString_take [OF Some]
      by (simp del: utf8_rune_size.simps add: utf8_ValidString_append)
  qed
qed

lemma utf8_coerce_fixed_iff: "(utf8_coerce D = D) = utf8_ValidString D"
proof
  assume "utf8_coerce D = D"
  then show "utf8_ValidString D"
    using utf8_coerce_is_valid [of D] by simp
next
  assume "utf8_ValidString D"
  then show "utf8_coerce D = D"
    by (rule utf8_coerce_valid)
qed

lemma cafe_size: "utf8_rune_size [CHR 0xC3, CHR 0xA9, CHR 0xFF] = Some 2"
  by (simp add: Let_def byte_in_def)

lemma bad_size: "utf8_rune_size [CHR 0xFF, CHR 0xFE, CHR ''a'', CHR 0xC3] = None"
  by (simp add: Let_def)

section \<open>The claims\<close>

text \<open>
  C1. For every URL that splits on \<^verbatim>\<open>/\<close> into at least 7 segments, \<open>getPRDiff\<close> runs
  \<^verbatim>\<open>gh pr diff -R <segment 3>/<segment 4> <segment 6>\<close>, and nothing else; for
  \<^verbatim>\<open>https://github.com/orgX/repoY/pull/123\<close> the command is
  \<^verbatim>\<open>gh pr diff -R orgX/repoY 123\<close>.
\<close>

theorem C1_segments_3_4_6:
  "(\<forall>w prURL. 7 \<le> length (strings_Split prURL (CHR ''/'')) \<longrightarrow>
      fst (getPRDiff w prURL) =
        [Exec [''gh'', ''pr'', ''diff'', ''-R'',
               strings_Split prURL (CHR ''/'') ! 3 @ ''/'' @ strings_Split prURL (CHR ''/'') ! 4,
               strings_Split prURL (CHR ''/'') ! 6]])
   \<and> (\<forall>w. fst (getPRDiff w ''https://github.com/orgX/repoY/pull/123'') =
        [Exec [''gh'', ''pr'', ''diff'', ''-R'', ''orgX/repoY'', ''123'']])"
proof (intro conjI allI impI)
  fix w prURL
  assume "7 \<le> length (strings_Split prURL (CHR ''/''))"
  then show "fst (getPRDiff w prURL) =
        [Exec [''gh'', ''pr'', ''diff'', ''-R'',
               strings_Split prURL (CHR ''/'') ! 3 @ ''/'' @ strings_Split prURL (CHR ''/'') ! 4,
               strings_Split prURL (CHR ''/'') ! 6]]"
    by (simp add: getPRDiff_long)
next
  fix w
  have "7 \<le> length (strings_Split ''https://github.com/orgX/repoY/pull/123'' (CHR ''/''))"
    by (simp add: strings_Split_example)
  then show "fst (getPRDiff w ''https://github.com/orgX/repoY/pull/123'') =
        [Exec [''gh'', ''pr'', ''diff'', ''-R'', ''orgX/repoY'', ''123'']]"
    by (simp add: getPRDiff_long strings_Split_example)
qed

theorem C1_segments_3_4_6_witness:
  "7 \<le> length (strings_Split ''https://github.com/loadfms/prgpt/pull/7'' (CHR ''/''))
   \<and> fst (getPRDiff example_env ''https://github.com/loadfms/prgpt/pull/7'') =
        [Exec [''gh'', ''pr'', ''diff'', ''-R'', ''loadfms/prgpt'', ''7'']]"
proof -
  have h: "7 \<le> length (strings_Split ''https://github.com/loadfms/prgpt/pull/7'' (CHR ''/''))"
    by (simp add: strings_Split_example2)
  have "fst (getPRDiff example_env ''https://github.com/loadfms/prgpt/pull/7'') =
        [Exec [''gh'', ''pr'', ''diff'', ''-R'',
               strings_Split ''https://github.com/loadfms/prgpt/pull/7'' (CHR ''/'') ! 3 @ ''/''
                 @ strings_Split ''https://github.com/loadfms/prgpt/pull/7'' (CHR ''/'') ! 4,
               strings_Split ''https://github.com/loadfms/prgpt/pull/7'' (CHR ''/'') ! 6]]"
    using C1_segments_3_4_6 h by blast
  then show ?thesis
    using h by (simp add: strings_Split_example2)
qed

text \<open>
  C2. For every URL that splits on \<^verbatim>\<open>/\<close> into fewer than 7 segments, \<open>getPRDiff\<close>
  fails with \<open>InvalidURLError\<close> and has no event: no process was started. A run of
  \<open>main\<close> on such a URL starts no process and sends no request.
\<close>

theorem C2_short_url_rejected:
  assumes "length (strings_Split prURL (CHR ''/'')) < 7"
  shows "getPRDiff w prURL = ([], Inl InvalidURLError)
     \<and> processes_of (fst (main w (Some prURL))) = []
     \<and> requests_of (fst (main w (Some prURL))) = []"
proof -
  have g: "getPRDiff w prURL = ([], Inl InvalidURLError)"
    using assms by (rule getPRDiff_short)
  show ?thesis
  proof (cases "prURL = []")
    case True
    then show ?thesis
      using g by (simp add: main_usage processes_of_append requests_of_append loadConfig_events)
  next
    case False
    then show ?thesis
      using g by (simp add: main_run processes_of_append requests_of_append loadConfig_events)
  qed
qed

theorem C2_short_url_rejected_witness:
  "length (strings_Split ''https://github.com/orgX/repoY'' (CHR ''/'')) < 7
   \<and> getPRDiff example_env ''https://github.com/orgX/repoY'' = ([], Inl InvalidURLError)
   \<and> processes_of (fst (main example_env (Some ''https://github.com/orgX/repoY''))) = []
   \<and> requests_of (fst (main example_env (Some ''https://github.com/orgX/repoY''))) = []"
proof -
  have h: "length (strings_Split ''https://github.com/orgX/repoY'' (CHR ''/'')) < 7"
    by (simp add: strings_Split_short_example)
  show ?thesis
    using h C2_short_url_rejected [OF h, of example_env] by simp
qed

text \<open>
  C3, as stated, fails for a diff that is not valid UTF-8: for the one byte 0xFF the
  content of the message in the body is U+FFFD followed by the instruction, and the diff is
  not a prefix of it.
\<close>

theorem C3_invalid_utf8_counterexample:
  "fst (generateFinalConsideration example_env [CHR 0xFF] ''sk-test'') =
     [HttpDo \<lparr>Method = ''POST'', URL = openAICompletionURL,
               Header = [(''Content-Type'', ''application/json''),
                         (''Authorization'', ''Bearer sk-test'')],
               Body = JObject
                 [(''model'', JString openAIModel),
                  (''messages'', JArray [JObject
                     [(''role'', JString ''user''),
                      (''content'', JString ([CHR 0xEF, CHR 0xBF, CHR 0xBD] @ instruction))]]),
                  (''temperature'', JNumber 0.5)]\<rparr>]
   \<and> \<not> prefix [CHR 0xFF] ([CHR 0xEF, CHR 0xBF, CHR 0xBD] @ instruction)"
proof -
  have c: "http_NewRequest_check example_env ''POST'' openAICompletionURL = None"
    by (simp add: example_env_def)
  show ?thesis
    using utf8_coerce_invalid_byte
    by (simp add: generate_sent [OF c] Let_def openAIModel_coerce user_coerce RuneError_utf8_def)
qed

text \<open>
  C3 (amended). For every diff \<open>D\<close> and every API key \<open>K\<close>, the generator sends
  (unless \<^verbatim>\<open>http.NewRequest\<close> refuses, in which case it sends nothing) one POST request
  whose JSON body has the model \<^verbatim>\<open>gpt-3.5-turbo-1106\<close>, the temperature 0.5 and a list
  of exactly one message, of role \<^verbatim>\<open>user\<close>, whose content is \<open>utf8_coerce D\<close>
  followed by the instruction text; \<open>K\<close> is only in the \<^verbatim>\<open>Authorization\<close> header.
  The content is \<open>D\<close> followed by the instruction exactly when \<open>D\<close> is valid
  UTF-8. \<open>utf8_coerce\<close> walks over the string: a byte that starts no well-formed
  sequence becomes U+FFFD and the walk goes on at the next byte; a well-formed sequence
  is kept and the walk goes on after it.
\<close>

theorem C3_request_body:
  "fst (generateFinalConsideration w D K) =
     (case http_NewRequest_check w ''POST'' openAICompletionURL of
        Some err \<Rightarrow> []
      | None \<Rightarrow>
          [HttpDo \<lparr>Method = ''POST'', URL = openAICompletionURL,
                    Header = [(''Content-Type'', ''application/json''),
                              (''Authorization'', ''Bearer '' @ K)],
                    Body = JObject
                      [(''model'', JString openAIModel),
                       (''messages'', JArray [JObject
                          [(''role'', JString ''user''),
                           (''content'', JString (utf8_coerce D @ instruction))]]),
                       (''temperature'', JNumber 0.5)]\<rparr>])
   \<and> (utf8_coerce D @ instruction = D @ instruction) = utf8_ValidString D
   \<and> utf8_coerce [] = []
   \<and> (\<forall>b bs. utf8_rune_size (b # bs) = None \<longrightarrow>
         utf8_coerce (b # bs) = [CHR 0xEF, CHR 0xBF, CHR 0xBD] @ utf8_coerce bs)
   \<and> (\<forall>b bs n. utf8_rune_size (b # bs) = Some n \<longrightarrow>
         utf8_coerce (b # bs) = take n (b # bs) @ utf8_coerce (drop n (b # bs)))"
proof -
  have body: "fst (generateFinalConsideration w D K) =
     (case http_NewRequest_check w ''POST'' openAICompletionURL of
        Some err \<Rightarrow> []
      | None \<Rightarrow>
          [HttpDo \<lparr>Method = ''POST'', URL = openAICompletionURL,
                    Header = [(''Content-Type'', ''application/json''),
                              (''Authorization'', ''Bearer '' @ K)],
                    Body = JObject
                      [(''model'', JString openAIModel),
                       (''messages'', JArray [JObject
                          [(''role'', JString ''user''),
                           (''content'', JString (utf8_coerce D @ instruction))]]),
                       (''temperature'', JNumber 0.5)]\<rparr>])"
  proof (cases "http_NewRequest_check w ''POST'' openAICompletionURL")
    case None
    then show ?thesis
      by (simp add: generate_sent [OF None] Let_def openAIModel_coerce user_coerce
            utf8_coerce_prompt)
  next
    case (Some e)
    then show ?thesis
      by (simp add: generate_refused)
  qed
  have fixed: "(utf8_coerce D @ instruction = D @ instruction) = utf8_ValidString D"
    by (simp add: utf8_coerce_fixed_iff)
  have bad: "\<forall>b bs. utf8_rune_size (b # bs) = None \<longrightarrow>
         utf8_coerce (b # bs) = [CHR 0xEF, CHR 0xBF, CHR 0xBD] @ utf8_coerce bs"
    by (simp del: utf8_rune_size.simps add: RuneError_utf8_def)
  have good: "\<forall>b bs n. utf8_rune_size (b # bs) = Some n \<longrightarrow>
         utf8_coerce (b # bs) = take n (b # bs) @ utf8_coerce (drop n (b # bs))"
    by (simp del: utf8_rune_size.simps)
  show ?thesis
    using body fixed bad good by simp
qed

theorem C3_request_body_witness:
  "utf8_ValidString (''+caf'' @ [CHR 0xC3, CHR 0xA9])
   \<and> fst (generateFinalConsideration example_env (''+caf'' @ [CHR 0xC3, CHR 0xA9]) ''sk-test'') =
       [HttpDo \<lparr>Method = ''POST'', URL = ''https://api.openai.com/v1/chat/completions'',
                 Header = [(''Content-Type'', ''application/json''),
                           (''Authorization'', ''Bearer sk-test'')],
                 Body = JObject
                   [(''model'', JString ''gpt-3.5-turbo-1106''),
                    (''messages'', JArray [JObject
                       [(''role'', JString ''user''),
                        (''content'', JString (''+caf'' @ [CHR 0xC3, CHR 0xA9] @ instruction))]]),
                    (''temperature'', JNumber (1 / 2))]\<rparr>]
   \<and> utf8_rune_size [CHR 0xFF, CHR 0xFE, CHR ''a'', CHR 0xC3] = None
   \<and> utf8_coerce [CHR 0xFF, CHR 0xFE, CHR ''a'', CHR 0xC3] =
       [CHR 0xEF, CHR 0xBF, CHR 0xBD] @ utf8_coerce [CHR 0xFE, CHR ''a'', CHR 0xC3]
   \<and> utf8_rune_size [CHR 0xC3, CHR 0xA9, CHR 0xFF] = Some 2
   \<and> utf8_coerce [CHR 0xC3, CHR 0xA9, CHR 0xFF] = [CHR 0xC3, CHR 0xA9] @ utf8_coerce [CHR 0xFF]
   \<and> \<not> utf8_ValidString [CHR 0xFF, CHR 0xFE, CHR ''a'', CHR 0xC3]
   \<and> fst (generateFinalConsideration example_env [CHR 0xFF, CHR 0xFE, CHR ''a'', CHR 0xC3]
             ''sk-test'') =
       [HttpDo \<lparr>Method = ''POST'', URL = ''https://api.openai.com/v1/chat/completions'',
                 Header = [(''Content-Type'', ''application/json''),
                           (''Authorization'', ''Bearer sk-test'')],
                 Body = JObject
                   [(''model'', JString ''gpt-3.5-turbo-1106''),
                    (''messages'', JArray [JObject
                       [(''role'', JString ''user''),
                        (''content'', JString
                           ([CHR 0xEF, CHR 0xBF, CHR 0xBD, CHR 0xEF, CHR 0xBF, CHR 0xBD,
                             CHR ''a'', CHR 0xEF, CHR 0xBF, CHR 0xBD] @ instruction))]]),
                    (''temperature'', JNumber (1 / 2))]\<rparr>]"
proof -
  note t1 = C3_request_body [of example_env "''+caf'' @ [CHR 0xC3, CHR 0xA9]" "''sk-test''"]
  note t2 = C3_request_body [of example_env "[CHR 0xFF, CHR 0xFE, CHR ''a'', CHR 0xC3]"
              "''sk-test''"]
  have c: "http_NewRequest_check example_env ''POST'' openAICompletionURL = None"
    by (simp add: example_env_def)
  have v: "utf8_ValidString (''+caf'' @ [CHR 0xC3, CHR 0xA9])"
    by (rule cafe_valid)
  have e1: "utf8_coerce (''+caf'' @ [CHR 0xC3, CHR 0xA9]) @ instruction
             = (''+caf'' @ [CHR 0xC3, CHR 0xA9]) @ instruction"
    using t1 v by blast
  have g1: "fst (generateFinalConsideration example_env (''+caf'' @ [CHR 0xC3, CHR 0xA9])
                  ''sk-test'') =
       [HttpDo \<lparr>Method = ''POST'', URL = openAICompletionURL,
                 Header = [(''Content-Type'', ''application/json''),
                           (''Authorization'', ''Bearer '' @ ''sk-test'')],
                 Body = JObject
                   [(''model'', JString openAIModel),
                    (''messages'', JArray [JObject
                       [(''role'', JString ''user''),
                        (''content'', JString
                           (utf8_coerce (''+caf'' @ [CHR 0xC3, CHR 0xA9]) @ instruction))]]),
                    (''temperature'', JNumber 0.5)]\<rparr>]"
    using t1 c by (simp only: option.case)
  have b1: "utf8_coerce [CHR 0xFF, CHR 0xFE, CHR ''a'', CHR 0xC3] =
       [CHR 0xEF, CHR 0xBF, CHR 0xBD] @ utf8_coerce [CHR 0xFE, CHR ''a'', CHR 0xC3]"
    using t2 bad_size by blast
  have b2: "utf8_coerce [CHR 0xC3, CHR 0xA9, CHR 0xFF]
       = take 2 [CHR 0xC3, CHR 0xA9, CHR 0xFF] @ utf8_coerce (drop 2 [CHR 0xC3, CHR 0xA9, CHR 0xFF])"
    using t2 cafe_size by blast
  have nv: "\<not> utf8_ValidString [CHR 0xFF, CHR 0xFE, CHR ''a'', CHR 0xC3]"
    by (simp add: Let_def)
  have g2: "fst (generateFinalConsideration example_env [CHR 0xFF, CHR 0xFE, CHR ''a'', CHR 0xC3]
                  ''sk-test'') =
       [HttpDo \<lparr>Method = ''POST'', URL = openAICompletionURL,
                 Header = [(''Content-Type'', ''application/json''),
                           (''Authorization'', ''Bearer '' @ ''sk-test'')],
                 Body = JObject
                   [(''model'', JString openAIModel),
                    (''messages'', JArray [JObject
                       [(''role'', JString ''user''),
                        (''content'', JString
                           (utf8_coerce [CHR 0xFF, CHR 0xFE, CHR ''a'', CHR 0xC3] @ instruction))]]),
                    (''temperature'', JNumber 0.5)]\<rparr>]"
    using t2 c by (simp only: option.case)
  have ev: "utf8_coerce [CHR 0xFF, CHR 0xFE, CHR ''a'', CHR 0xC3] =
      [CHR 0xEF, CHR 0xBF, CHR 0xBD, CHR 0xEF, CHR 0xBF, CHR 0xBD,
       CHR ''a'', CHR 0xEF, CHR 0xBF, CHR 0xBD]"
    by (simp add: Let_def RuneError_utf8_def)
  show ?thesis
    using v e1 g1 b1 b2 nv g2 bad_size cafe_size
    by (simp add: ev openAICompletionURL_def openAIModel_def)
qed

text \<open>
  C4. When the diff was fetched, the request \<open>req\<close> was sent, and the body of the
  response deserializes to a response with exactly one choice, the generator returns that
  choice's message content as it is and \<open>main\<close> writes it to standard output followed
  by one newline, with nothing before or after; the exit status is 0. The witness takes
  the content \<^verbatim>\<open>"LGTM\nApproved: true"\<close>.
\<close>

theorem C4_first_choice_printed:
  assumes "getPRDiff w prURL = (ev1, Inr prDiff)"
    and "fst (generateFinalConsideration w prDiff (Key (ApiKey (fst (snd (loadConfig w))))))
           = [HttpDo req]"
    and "client_Do w req = Inr resp"
    and "Body_ReadAll resp = Inr body"
    and "json_Unmarshal w body = Inr openAIResp"
    and "Choices openAIResp = [choice]"
    and "Message_Content (Message choice) = content"
  shows "snd (generateFinalConsideration w prDiff (Key (ApiKey (fst (snd (loadConfig w))))))
           = Inr content
     \<and> stdout_of (fst (main w (Some prURL))) = content @ [CHR 0x0A]
     \<and> snd (main w (Some prURL)) = 0"
proof -
  have ne: "prURL \<noteq> []"
    using assms(1) by (rule getPRDiff_ok_nonempty)
  have g: "snd (generateFinalConsideration w prDiff (Key (ApiKey (fst (snd (loadConfig w))))))
           = Inr content"
    using assms(3-7) by (simp add: generate_after_request [OF assms(2)])
  have e: "stdout_of ev1 = []"
    using getPRDiff_events(2) [of w prURL] assms(1) by simp
  have "stdout_of (fst (main w (Some prURL))) = content @ [CHR 0x0A]"
    using assms(1) g e
    by (simp add: main_run [OF ne] stdout_of_append loadConfig_events generate_events)
  moreover have "snd (main w (Some prURL)) = 0"
    by (simp add: main_run [OF ne])
  ultimately show ?thesis
    using g by simp
qed

theorem C4_first_choice_printed_witness:
  "getPRDiff example_env ''https://github.com/orgX/repoY/pull/123'' =
     ([Exec [''gh'', ''pr'', ''diff'', ''-R'', ''orgX/repoY'', ''123'']],
      Inr ''diff --git a/x b/x'')
   \<and> json_Unmarshal example_env ''{}'' = Inr example_response
   \<and> map (\<lambda>c. Message_Content (Message c)) (Choices example_response)
        = [''LGTM'' @ [CHR 0x0A] @ ''Approved: true'']
   \<and> snd (generateFinalConsideration example_env ''diff --git a/x b/x'' ''sk-test'')
        = Inr (''LGTM'' @ [CHR 0x0A] @ ''Approved: true'')
   \<and> stdout_of (fst (main example_env (Some ''https://github.com/orgX/repoY/pull/123'')))
        = ''LGTM'' @ [CHR 0x0A] @ ''Approved: true'' @ [CHR 0x0A]"
proof -
  have k: "Key (ApiKey (fst (snd (loadConfig example_env)))) = ''sk-test''"
    by (simp add: loadConfig_example)
  have h2: "fst (generateFinalConsideration example_env ''diff --git a/x b/x''
                  (Key (ApiKey (fst (snd (loadConfig example_env)))))) =
    [HttpDo \<lparr>Method = ''POST'', URL = openAICompletionURL,
              Header = [(''Content-Type'', ''application/json''),
                        (''Authorization'', ''Bearer '' @ ''sk-test'')],
              Body = JObject
                [(''model'', JString openAIModel),
                 (''messages'', JArray [JObject
                    [(''role'', JString ''user''),
                     (''content'', JString (''diff --git a/x b/x'' @ instruction))]]),
                 (''temperature'', JNumber 0.5)]\<rparr>]"
    unfolding k by (rule generate_sent_valid [OF example_diff_valid]) (simp add: example_env_def)
  have h3: "client_Do example_env
      \<lparr>Method = ''POST'', URL = openAICompletionURL,
              Header = [(''Content-Type'', ''application/json''),
                        (''Authorization'', ''Bearer '' @ ''sk-test'')],
              Body = JObject
                [(''model'', JString openAIModel),
                 (''messages'', JArray [JObject
                    [(''role'', JString ''user''),
                     (''content'', JString (''diff --git a/x b/x'' @ instruction))]]),
                 (''temperature'', JNumber 0.5)]\<rparr>
      = Inr \<lparr>StatusCode = 200, Body_ReadAll = Inr ''{}''\<rparr>"
    by (simp add: example_env_def)
  have h4: "Body_ReadAll \<lparr>StatusCode = 200, Body_ReadAll = Inr ''{}''\<rparr> = Inr ''{}''"
    by simp
  have h5: "json_Unmarshal example_env ''{}'' = Inr example_response"
    by (simp add: example_env_def)
  have h6: "Choices example_response =
      [\<lparr>Message = \<lparr>Message_Role = ''assistant'',
                    Message_Content = ''LGTM'' @ [CHR 0x0A] @ ''Approved: true''\<rparr>,
        FinishReason = ''stop'', Index = 0\<rparr>]"
    by (simp add: example_response_def)
  have h7: "Message_Content (Message
      \<lparr>Message = \<lparr>Message_Role = ''assistant'',
                    Message_Content = ''LGTM'' @ [CHR 0x0A] @ ''Approved: true''\<rparr>,
        FinishReason = ''stop'', Index = 0\<rparr>) = ''LGTM'' @ [CHR 0x0A] @ ''Approved: true''"
    by simp
  show ?thesis
    using C4_first_choice_printed [OF getPRDiff_example h2 h3 h4 h5 h6 h7] h5 h6
    by (simp add: k getPRDiff_example)
qed

text \<open>
  C5. When the body of the response deserializes to a response whose list of choices is
  empty, the generator fails with \<open>EmptyResponseError\<close> and the only text on standard
  output is the line
  \<^verbatim>\<open>Error generating final consideration: no response received from OpenAI API\<close>.
\<close>

theorem C5_empty_choices:
  assumes "getPRDiff w prURL = (ev1, Inr prDiff)"
    and "fst (generateFinalConsideration w prDiff (Key (ApiKey (fst (snd (loadConfig w))))))
           = [HttpDo req]"
    and "client_Do w req = Inr resp"
    and "Body_ReadAll resp = Inr body"
    and "json_Unmarshal w body = Inr openAIResp"
    and "Choices openAIResp = []"
  shows "snd (generateFinalConsideration w prDiff (Key (ApiKey (fst (snd (loadConfig w))))))
           = Inl EmptyResponseError
     \<and> stdout_of (fst (main w (Some prURL))) =
         ''Error generating final consideration: no response received from OpenAI API''
           @ [CHR 0x0A]"
proof -
  have ne: "prURL \<noteq> []"
    using assms(1) by (rule getPRDiff_ok_nonempty)
  have g: "snd (generateFinalConsideration w prDiff (Key (ApiKey (fst (snd (loadConfig w))))))
           = Inl EmptyResponseError"
    using assms(3-6) by (simp add: generate_after_request [OF assms(2)])
  have e: "stdout_of ev1 = []"
    using getPRDiff_events(2) [of w prURL] assms(1) by simp
  have "stdout_of (fst (main w (Some prURL))) =
         ''Error generating final consideration: no response received from OpenAI API''
           @ [CHR 0x0A]"
    using assms(1) g e
    by (simp add: main_run [OF ne] stdout_of_append loadConfig_events generate_events)
  with g show ?thesis
    by simp
qed

theorem C5_empty_choices_witness:
  "getPRDiff env_no_choices ''https://github.com/orgX/repoY/pull/123'' =
     ([Exec [''gh'', ''pr'', ''diff'', ''-R'', ''orgX/repoY'', ''123'']],
      Inr ''diff --git a/x b/x'')
   \<and> json_Unmarshal env_no_choices ''{}'' = Inr (example_response\<lparr>Choices := []\<rparr>)
   \<and> snd (generateFinalConsideration env_no_choices ''diff --git a/x b/x'' ''sk-test'')
        = Inl EmptyResponseError
   \<and> stdout_of (fst (main env_no_choices (Some ''https://github.com/orgX/repoY/pull/123'')))
        = ''Error generating final consideration: no response received from OpenAI API''
            @ [CHR 0x0A]"
proof -
  have k: "Key (ApiKey (fst (snd (loadConfig env_no_choices)))) = ''sk-test''"
    by (simp add: loadConfig_no_choices loadConfig_example)
  have h2: "fst (generateFinalConsideration env_no_choices ''diff --git a/x b/x''
                  (Key (ApiKey (fst (snd (loadConfig env_no_choices)))))) =
    [HttpDo \<lparr>Method = ''POST'', URL = openAICompletionURL,
              Header = [(''Content-Type'', ''application/json''),
                        (''Authorization'', ''Bearer '' @ ''sk-test'')],
              Body = JObject
                [(''model'', JString openAIModel),
                 (''messages'', JArray [JObject
                    [(''role'', JString ''user''),
                     (''content'', JString (''diff --git a/x b/x'' @ instruction))]]),
                 (''temperature'', JNumber 0.5)]\<rparr>]"
    unfolding k
    by (rule generate_sent_valid [OF example_diff_valid])
       (simp add: env_no_choices_def example_env_def)
  have h3: "client_Do env_no_choices
      \<lparr>Method = ''POST'', URL = openAICompletionURL,
              Header = [(''Content-Type'', ''application/json''),
                        (''Authorization'', ''Bearer '' @ ''sk-test'')],
              Body = JObject
                [(''model'', JString openAIModel),
                 (''messages'', JArray [JObject
                    [(''role'', JString ''user''),
                     (''content'', JString (''diff --git a/x b/x'' @ instruction))]]),
                 (''temperature'', JNumber 0.5)]\<rparr>
      = Inr \<lparr>StatusCode = 401, Body_ReadAll = Inr ''{}''\<rparr>"
    by (simp add: env_no_choices_def)
  have h4: "Body_ReadAll \<lparr>StatusCode = 401, Body_ReadAll = Inr ''{}''\<rparr> = Inr ''{}''"
    by simp
  have h5: "json_Unmarshal env_no_choices ''{}'' = Inr (example_response\<lparr>Choices := []\<rparr>)"
    by (simp add: env_no_choices_def)
  have h6: "Choices (example_response\<lparr>Choices := []\<rparr>) = []"
    by simp
  show ?thesis
    using C5_empty_choices [OF getPRDiff_no_choices h2 h3 h4 h5 h6] h5
    by (simp add: k getPRDiff_no_choices)
qed

text \<open>
  C6. When \<^verbatim>\<open>cmd.Output\<close> returns an error for the \<^verbatim>\<open>gh\<close> command (the process exits
  non-zero or cannot be started), \<open>getPRDiff\<close> fails with \<open>DiffFetchError\<close>, whose
  message holds the text of the process error; the run sends no HTTP request and prints
  the one line \<^verbatim>\<open>Error fetching PR diff: error running gh pr diff: <error>\<close>.
\<close>

theorem C6_diff_command_failure:
  assumes "7 \<le> length (strings_Split prURL (CHR ''/''))"
    and "cmd_Output w [''gh'', ''pr'', ''diff'', ''-R'',
           strings_Split prURL (CHR ''/'') ! 3 @ ''/'' @ strings_Split prURL (CHR ''/'') ! 4,
           strings_Split prURL (CHR ''/'') ! 6] = Inl e"
  shows "snd (getPRDiff w prURL) = Inl (DiffFetchError e)
     \<and> Error (DiffFetchError e) = ''error running gh pr diff: '' @ e
     \<and> requests_of (fst (main w (Some prURL))) = []
     \<and> stdout_of (fst (main w (Some prURL))) =
         ''Error fetching PR diff: error running gh pr diff: '' @ e @ [CHR 0x0A]"
proof -
  have ne: "prURL \<noteq> []"
    using assms(1) by (rule long_url_nonempty)
  have g: "snd (getPRDiff w prURL) = Inl (DiffFetchError e)"
    using assms by (simp add: getPRDiff_long)
  have r: "requests_of (fst (main w (Some prURL))) = []"
    using g by (simp add: main_run [OF ne] requests_of_append loadConfig_events getPRDiff_events)
  have s: "stdout_of (fst (main w (Some prURL))) =
         ''Error fetching PR diff: error running gh pr diff: '' @ e @ [CHR 0x0A]"
    using g by (simp add: main_run [OF ne] stdout_of_append loadConfig_events getPRDiff_events)
  show ?thesis
    using g r s by simp
qed

theorem C6_diff_command_failure_witness:
  "7 \<le> length (strings_Split ''https://github.com/orgX/repoY/pull/123'' (CHR ''/''))
   \<and> cmd_Output env_gh_fails [''gh'', ''pr'', ''diff'', ''-R'', ''orgX/repoY'', ''123'']
        = Inl ''exit status 1''
   \<and> snd (getPRDiff env_gh_fails ''https://github.com/orgX/repoY/pull/123'')
        = Inl (DiffFetchError ''exit status 1'')
   \<and> requests_of (fst (main env_gh_fails (Some ''https://github.com/orgX/repoY/pull/123''))) = []
   \<and> stdout_of (fst (main env_gh_fails (Some ''https://github.com/orgX/repoY/pull/123''))) =
        ''Error fetching PR diff: error running gh pr diff: exit status 1'' @ [CHR 0x0A]"
proof -
  have h: "7 \<le> length (strings_Split ''https://github.com/orgX/repoY/pull/123'' (CHR ''/''))"
    by (simp add: strings_Split_example)
  have c: "cmd_Output env_gh_fails [''gh'', ''pr'', ''diff'', ''-R'',
           strings_Split ''https://github.com/orgX/repoY/pull/123'' (CHR ''/'') ! 3 @ ''/''
             @ strings_Split ''https://github.com/orgX/repoY/pull/123'' (CHR ''/'') ! 4,
           strings_Split ''https://github.com/orgX/repoY/pull/123'' (CHR ''/'') ! 6]
          = Inl ''exit status 1''"
    by (simp add: env_gh_fails_def)
  have c': "cmd_Output env_gh_fails [''gh'', ''pr'', ''diff'', ''-R'', ''orgX/repoY'', ''123'']
        = Inl ''exit status 1''"
    by (simp add: env_gh_fails_def)
  show ?thesis
    using h c' C6_diff_command_failure [OF h c] by simp
qed

text \<open>
  C7, as stated, fails when the decoder reports an error after it has stored the key:
  \<open>loadConfig\<close> returns the error together with a configuration that is not the zero
  value, and the request carries that key.
\<close>

theorem C7_partial_config_counterexample:
  "snd (snd (loadConfig env_partial_config))
       = Some (ConfigError_Parse ''toml: expected character ='')
   \<and> fst (snd (loadConfig env_partial_config)) \<noteq> FileConfig_zero
   \<and> Key (ApiKey (fst (snd (loadConfig env_partial_config)))) = ''sk-partial''
   \<and> map Header (requests_of
        (fst (main env_partial_config (Some ''https://github.com/orgX/repoY/pull/123''))))
       = [[(''Content-Type'', ''application/json''), (''Authorization'', ''Bearer sk-partial'')]]"
proof -
  have lc: "loadConfig env_partial_config =
     ([FileOpen ''/home/dev/.config/openai/config.toml''],
      \<lparr>ApiKey = \<lparr>Key = ''sk-partial''\<rparr>, Prompt = \<lparr>Custom = []\<rparr>\<rparr>,
      Some (ConfigError_Parse ''toml: expected character =''))"
    by (simp add: loadConfig_def env_partial_config_def example_env_def FileConfig_zero_def
          CONFIG_FOLDER_def FILENAME_def)
  have g: "getPRDiff env_partial_config ''https://github.com/orgX/repoY/pull/123'' =
     ([Exec [''gh'', ''pr'', ''diff'', ''-R'', ''orgX/repoY'', ''123'']],
      Inr ''diff --git a/x b/x'')"
    by (simp add: getPRDiff_long strings_Split_example env_partial_config_def example_env_def)
  have c: "http_NewRequest_check env_partial_config ''POST'' openAICompletionURL = None"
    by (simp add: env_partial_config_def example_env_def)
  have f: "requests_of (fst (generateFinalConsideration env_partial_config
             ''diff --git a/x b/x'' ''sk-partial'')) =
     [\<lparr>Method = ''POST'', URL = openAICompletionURL,
       Header = [(''Content-Type'', ''application/json''),
                 (''Authorization'', ''Bearer sk-partial'')],
       Body = JObject
         [(''model'', JString openAIModel),
          (''messages'', JArray [JObject
             [(''role'', JString ''user''),
              (''content'', JString (''diff --git a/x b/x'' @ instruction))]]),
          (''temperature'', JNumber 0.5)]\<rparr>]"
    by (simp add: generate_sent_valid [OF example_diff_valid c])
  have "requests_of
        (fst (main env_partial_config (Some ''https://github.com/orgX/repoY/pull/123''))) =
     requests_of (fst (generateFinalConsideration env_partial_config
             ''diff --git a/x b/x'' ''sk-partial''))"
    by (simp add: main_run lc g requests_of_append split: sum.split)
  then show ?thesis
    by (simp add: lc f FileConfig_zero_def)
qed

text \<open>
  C7 (amended). When \<open>loadConfig\<close> returns an error and the \<^verbatim>\<open>-pr\<close> URL is not
  empty, the run does not stop: it is the events of \<open>loadConfig\<close> followed by the diff
  fetcher and the generator as usual, the generator being given the key of the
  configuration that \<open>loadConfig\<close> returned beside the error; the error itself is
  printed nowhere. That configuration is the zero value (empty key) when the current user
  cannot be resolved or the file cannot be opened; when parsing fails it is whatever the
  decoder left in the struct.
\<close>

theorem C7_config_error_unchecked:
  assumes "loadConfig w = (ev0, cfg, Some e)"
    and "prURL \<noteq> []"
  shows "main w (Some prURL) =
      (ev0 @ fst (getPRDiff w prURL) @
        (case snd (getPRDiff w prURL) of
           Inl err \<Rightarrow> [Stdout (fmt_Println [''Error fetching PR diff:'', Error err])]
         | Inr prDiff \<Rightarrow>
             fst (generateFinalConsideration w prDiff (Key (ApiKey cfg))) @
             (case snd (generateFinalConsideration w prDiff (Key (ApiKey cfg))) of
                Inl err \<Rightarrow>
                  [Stdout (fmt_Println [''Error generating final consideration:'', Error err])]
              | Inr finalConsideration \<Rightarrow> [Stdout (fmt_Println [finalConsideration])])), 0)
     \<and> ((e = ConfigError_CurrentUser \<and> cfg = FileConfig_zero \<and> Key (ApiKey cfg) = [])
        \<or> (\<exists>m. e = ConfigError_Open m \<and> cfg = FileConfig_zero \<and> Key (ApiKey cfg) = [])
        \<or> (\<exists>m file. e = ConfigError_Parse m
               \<and> toml_Decode w file FileConfig_zero = (cfg, Some m)))"
proof -
  have "main w (Some prURL) =
      (ev0 @ fst (getPRDiff w prURL) @
        (case snd (getPRDiff w prURL) of
           Inl err \<Rightarrow> [Stdout (fmt_Println [''Error fetching PR diff:'', Error err])]
         | Inr prDiff \<Rightarrow>
             fst (generateFinalConsideration w prDiff (Key (ApiKey cfg))) @
             (case snd (generateFinalConsideration w prDiff (Key (ApiKey cfg))) of
                Inl err \<Rightarrow>
                  [Stdout (fmt_Println [''Error generating final consideration:'', Error err])]
              | Inr finalConsideration \<Rightarrow> [Stdout (fmt_Println [finalConsideration])])), 0)"
    unfolding main_run [OF assms(2)] assms(1) fst_conv snd_conv ..
  moreover have "Key (ApiKey FileConfig_zero) = []"
    by (simp add: FileConfig_zero_def)
  ultimately show ?thesis
    using loadConfig_failure_cases [OF assms(1)] by auto
qed

theorem C7_config_error_unchecked_witness:
  "loadConfig env_no_config =
     ([FileOpen ''/home/dev/.config/openai/config.toml''], FileConfig_zero,
      Some (ConfigError_Open ''no such file or directory''))
   \<and> main env_no_config (Some ''https://github.com/orgX/repoY/pull/123'') =
     ([FileOpen ''/home/dev/.config/openai/config.toml'',
       Exec [''gh'', ''pr'', ''diff'', ''-R'', ''orgX/repoY'', ''123''],
       HttpDo \<lparr>Method = ''POST'', URL = openAICompletionURL,
                Header = [(''Content-Type'', ''application/json''),
                          (''Authorization'', ''Bearer '')],
                Body = JObject
                  [(''model'', JString openAIModel),
                   (''messages'', JArray [JObject
                      [(''role'', JString ''user''),
                       (''content'', JString (''diff --git a/x b/x'' @ instruction))]]),
                   (''temperature'', JNumber 0.5)]\<rparr>,
       Stdout (''LGTM'' @ [CHR 0x0A] @ ''Approved: true'' @ [CHR 0x0A])], 0)"
proof -
  have ne: "''https://github.com/orgX/repoY/pull/123'' \<noteq> []"
    by simp
  have k: "Key (ApiKey FileConfig_zero) = []"
    by (simp add: FileConfig_zero_def)
  show ?thesis
    using C7_config_error_unchecked [OF loadConfig_no_config ne]
    by (simp add: loadConfig_no_config getPRDiff_no_config k generate_no_config)
qed

text \<open>
  C8 at an environment without configuration file: \<open>loadConfig\<close> returns the error
  \<^verbatim>\<open>Error opening TOML file: ...\<close>, yet the run goes on to \<^verbatim>\<open>gh\<close> and to the service
  (with an empty key), and standard output holds the review only: the configuration error
  is neither printed nor terminal. The exit status is 0.
\<close>

theorem C8_config_error_not_reported:
  "snd (snd (loadConfig env_no_config))
       = Some (ConfigError_Open ''no such file or directory'')
   \<and> Error (ConfigError_Open ''no such file or directory'')
       = ''Error opening TOML file: no such file or directory''
   \<and> processes_of (fst (main env_no_config (Some ''https://github.com/orgX/repoY/pull/123'')))
       = [[''gh'', ''pr'', ''diff'', ''-R'', ''orgX/repoY'', ''123'']]
   \<and> map Header (requests_of
        (fst (main env_no_config (Some ''https://github.com/orgX/repoY/pull/123''))))
       = [[(''Content-Type'', ''application/json''), (''Authorization'', ''Bearer '')]]
   \<and> stdout_of (fst (main env_no_config (Some ''https://github.com/orgX/repoY/pull/123'')))
       = ''LGTM'' @ [CHR 0x0A] @ ''Approved: true'' @ [CHR 0x0A]
   \<and> snd (main env_no_config (Some ''https://github.com/orgX/repoY/pull/123'')) = 0"
proof -
  have k: "Key (ApiKey FileConfig_zero) = []"
    by (simp add: FileConfig_zero_def)
  show ?thesis
    by (simp add: main_run loadConfig_no_config getPRDiff_no_config k generate_no_config)
qed

text \<open>
  C9, as stated, fails: line 70 calls \<open>loadConfig\<close> before the test of line 72, so
  a run without the \<^verbatim>\<open>-pr\<close> flag has opened the configuration file (and decoded the
  key) when it prints the usage line.
\<close>

theorem C9_config_loaded_counterexample:
  "fst (main example_env None) =
     [FileOpen ''/home/dev/.config/openai/config.toml'',
      Stdout (''Usage: pr_review_cli -pr <PR_URL>'' @ [CHR 0x0A])]
   \<and> loadConfig example_env =
     ([FileOpen ''/home/dev/.config/openai/config.toml''],
      \<lparr>ApiKey = \<lparr>Key = ''sk-test''\<rparr>, Prompt = \<lparr>Custom = []\<rparr>\<rparr>, None)"
  by (simp add: main_usage loadConfig_example)

text \<open>
  C9 (amended). Without the \<^verbatim>\<open>-pr\<close> flag, or with an empty value, the run is
  \<open>loadConfig\<close> followed by the usage line and nothing else: the only event before the
  usage line is the opening of the configuration file (none when the current user cannot
  be resolved), standard output is the usage line alone, no process is started, no request
  is sent, and the exit status is 0.
\<close>

theorem C9_usage_after_config:
  "main w None =
     (fst (loadConfig w) @ [Stdout (''Usage: pr_review_cli -pr <PR_URL>'' @ [CHR 0x0A])], 0)
   \<and> main w (Some []) = main w None
   \<and> (fst (loadConfig w) = [] \<or>
       (\<exists>home. user_Current w = Inr home \<and>
          fst (loadConfig w) = [FileOpen (HomeDir home @ ''/.config/openai/config.toml'')]))
   \<and> stdout_of (fst (main w None)) = ''Usage: pr_review_cli -pr <PR_URL>'' @ [CHR 0x0A]
   \<and> processes_of (fst (main w None)) = []
   \<and> requests_of (fst (main w None)) = []
   \<and> snd (main w None) = 0"
  using loadConfig_only_opens [of w]
  by (simp add: main_usage stdout_of_append processes_of_append requests_of_append
        loadConfig_events)

text \<open>
  C10. For URLs of at least 7 segments, \<open>getPRDiff\<close> checks nothing but the number
  of segments: two URLs that agree on segments 3, 4 and 6 give the same events and the
  same result, the result is never \<open>InvalidURLError\<close>, and a URL of seven empty
  segments is accepted as well (the command is \<^verbatim>\<open>gh pr diff -R /\<close> with an empty
  pull-request number).
\<close>

theorem C10_only_segments_3_4_6:
  assumes "7 \<le> length (strings_Split u1 (CHR ''/''))"
    and "7 \<le> length (strings_Split u2 (CHR ''/''))"
    and "strings_Split u1 (CHR ''/'') ! 3 = strings_Split u2 (CHR ''/'') ! 3"
    and "strings_Split u1 (CHR ''/'') ! 4 = strings_Split u2 (CHR ''/'') ! 4"
    and "strings_Split u1 (CHR ''/'') ! 6 = strings_Split u2 (CHR ''/'') ! 6"
  shows "getPRDiff w u1 = getPRDiff w u2
     \<and> snd (getPRDiff w u1) \<noteq> Inl InvalidURLError
     \<and> fst (getPRDiff w ''//////'') = [Exec [''gh'', ''pr'', ''diff'', ''-R'', ''/'', [] ]]"
proof -
  have e: "getPRDiff w u1 = getPRDiff w u2"
    using assms by (simp add: getPRDiff_long)
  have n: "snd (getPRDiff w u1) \<noteq> Inl InvalidURLError"
    using assms(1) by (simp add: getPRDiff_long split: sum.split)
  have s: "strings_Split ''//////'' (CHR ''/'') = [[], [], [], [], [], [], []]"
    by (simp add: strings_Split.simps)
  have "fst (getPRDiff w ''//////'') = [Exec [''gh'', ''pr'', ''diff'', ''-R'', ''/'', [] ]]"
    by (simp add: getPRDiff_long s)
  with e n show ?thesis
    by simp
qed

theorem C10_only_segments_3_4_6_witness:
  "7 \<le> length (strings_Split ''https://github.com/orgX/repoY/pull/123'' (CHR ''/''))
   \<and> 7 \<le> length (strings_Split ''ssh://example.org/orgX/repoY/issues/123/files'' (CHR ''/''))
   \<and> getPRDiff example_env ''https://github.com/orgX/repoY/pull/123''
       = getPRDiff example_env ''ssh://example.org/orgX/repoY/issues/123/files''
   \<and> snd (getPRDiff example_env ''https://github.com/orgX/repoY/pull/123'') \<noteq> Inl InvalidURLError"
proof -
  have h1: "7 \<le> length (strings_Split ''https://github.com/orgX/repoY/pull/123'' (CHR ''/''))"
    by (simp add: strings_Split_example)
  have h2: "7 \<le> length (strings_Split ''ssh://example.org/orgX/repoY/issues/123/files'' (CHR ''/''))"
    by (simp add: strings_Split_example3)
  have h3: "strings_Split ''https://github.com/orgX/repoY/pull/123'' (CHR ''/'') ! 3
          = strings_Split ''ssh://example.org/orgX/repoY/issues/123/files'' (CHR ''/'') ! 3"
    by (simp add: strings_Split_example strings_Split_example3)
  have h4: "strings_Split ''https://github.com/orgX/repoY/pull/123'' (CHR ''/'') ! 4
          = strings_Split ''ssh://example.org/orgX/repoY/issues/123/files'' (CHR ''/'') ! 4"
    by (simp add: strings_Split_example strings_Split_example3)
  have h6: "strings_Split ''https://github.com/orgX/repoY/pull/123'' (CHR ''/'') ! 6
          = strings_Split ''ssh://example.org/orgX/repoY/issues/123/files'' (CHR ''/'') ! 6"
    by (simp add: strings_Split_example strings_Split_example3)
  show ?thesis
    using h1 h2 C10_only_segments_3_4_6 [OF h1 h2 h3 h4 h6, of example_env] by blast
qed

end
